theory Spec2Isabelle
  imports Complex_Main "HOL-Library.Char_ord" "HOL-Library.Log_Nat"
begin

section \<open>JavaScript values shared by the pattern demos\<close>

text \<open>
  A JavaScript number is an IEEE binary64 double: \<open>NaN\<close>, one of the two infinities,
  or a finite double, which is taken as the real number it denotes. The finite doubles
  are the reals \<open>m * 2 ^ e\<close> with integers \<open>\<bar>m\<bar> < 2 ^ 53\<close> and
  \<open>- 1074 \<le> e \<le> 971\<close>. Comparisons are exact; every arithmetic operation rounds
  its exact result to a double. The sign of zero is not modelled: no comparison sees it.
\<close>

datatype jsnum = Finite real | PosInfinity | NegInfinity | NaN

text \<open>\<^verbatim>\<open>a <= b\<close>\<close>

fun js_le :: "jsnum \<Rightarrow> jsnum \<Rightarrow> bool" where
  "js_le NaN b = False"
| "js_le a NaN = False"
| "js_le NegInfinity b = True"
| "js_le a PosInfinity = True"
| "js_le (Finite x) (Finite y) = (x \<le> y)"
| "js_le (Finite x) NegInfinity = False"
| "js_le PosInfinity (Finite y) = False"
| "js_le PosInfinity NegInfinity = False"

text \<open>\<^verbatim>\<open>a < b\<close>\<close>

fun js_lt :: "jsnum \<Rightarrow> jsnum \<Rightarrow> bool" where
  "js_lt NaN b = False"
| "js_lt a NaN = False"
| "js_lt (Finite x) (Finite y) = (x < y)"
| "js_lt (Finite x) PosInfinity = True"
| "js_lt (Finite x) NegInfinity = False"
| "js_lt PosInfinity b = False"
| "js_lt NegInfinity NegInfinity = False"
| "js_lt NegInfinity b = True"

text \<open>\<^verbatim>\<open>a > b\<close>\<close>

definition js_gt :: "jsnum \<Rightarrow> jsnum \<Rightarrow> bool" where
  "js_gt a b = js_lt b a"

text \<open>The nearest integer, the even one of the two when they are equally near.\<close>

definition round_half_even :: "real \<Rightarrow> int" where
  "round_half_even x =
     (let f = \<lfloor>x\<rfloor>; d = x - of_int f in
      if d < 1 / 2 then f else if 1 / 2 < d then f + 1 else if even f then f else f + 1)"

text \<open>
  The exponent of a positive real: the integer \<open>k\<close> with \<open>2 ^ k \<le> x < 2 ^ (k + 1)\<close>,
  from the number of bits of the integer part of \<open>x\<close>, or of \<open>1 / x\<close> below one.
\<close>

definition floor_log2 :: "real \<Rightarrow> int" where
  "floor_log2 x = (if 1 \<le> x then bitlen \<lfloor>x\<rfloor> - 1 else - bitlen (\<lceil>1 / x\<rceil> - 1))"

text \<open>
  Rounding of an exact result to binary64, to nearest and ties to even. The doubles
  around \<open>x\<close> are the multiples of \<open>2 ^ e\<close>, where \<open>e\<close> leaves 53 bits for the
  multiple and is at least \<open>- 1074\<close> (below that the doubles are subnormal and equally
  spaced). A result of magnitude \<open>2 ^ 1024\<close> or more is an infinity.
\<close>

definition round64 :: "real \<Rightarrow> jsnum" where
  "round64 x =
     (if x = 0 then Finite 0
      else
        (let e = max (floor_log2 \<bar>x\<bar> - 52) (- 1074);
             r = of_int (round_half_even (x / 2 powi e)) * 2 powi e
         in if 2 ^ 1024 \<le> r then PosInfinity
            else if r \<le> - (2 ^ 1024) then NegInfinity
            else Finite r))"

text \<open>
  \<^verbatim>\<open>a + b\<close> on numbers, with the rounding of the finite sum as a parameter: it is
  \<open>round64\<close> in the program as it runs, and \<open>Finite\<close> in exact arithmetic.
\<close>

fun add_with :: "(real \<Rightarrow> jsnum) \<Rightarrow> jsnum \<Rightarrow> jsnum \<Rightarrow> jsnum" where
  "add_with rnd NaN b = NaN"
| "add_with rnd a NaN = NaN"
| "add_with rnd (Finite x) (Finite y) = rnd (x + y)"
| "add_with rnd PosInfinity NegInfinity = NaN"
| "add_with rnd NegInfinity PosInfinity = NaN"
| "add_with rnd PosInfinity b = PosInfinity"
| "add_with rnd NegInfinity b = NegInfinity"
| "add_with rnd (Finite x) b = b"

definition js_add :: "jsnum \<Rightarrow> jsnum \<Rightarrow> jsnum" where
  "js_add a b = add_with round64 a b"

text \<open>Unary minus, which is exact.\<close>

fun js_neg :: "jsnum \<Rightarrow> jsnum" where
  "js_neg NaN = NaN"
| "js_neg (Finite x) = Finite (- x)"
| "js_neg PosInfinity = NegInfinity"
| "js_neg NegInfinity = PosInfinity"

text \<open>\<^verbatim>\<open>a - b\<close>: the sum of \<open>a\<close> and \<open>- b\<close>, rounded once.\<close>

definition js_sub :: "jsnum \<Rightarrow> jsnum \<Rightarrow> jsnum" where
  "js_sub a b = js_add a (js_neg b)"

text \<open>
  \<^verbatim>\<open>a * b\<close>, again with the rounding of the finite product as a parameter: the sign
  of an infinite product is the product of the signs, and \<open>Infinity * 0\<close> is \<open>NaN\<close>.
\<close>

fun mul_with :: "(real \<Rightarrow> jsnum) \<Rightarrow> jsnum \<Rightarrow> jsnum \<Rightarrow> jsnum" where
  "mul_with rnd NaN b = NaN"
| "mul_with rnd a NaN = NaN"
| "mul_with rnd (Finite x) (Finite y) = rnd (x * y)"
| "mul_with rnd (Finite x) PosInfinity =
     (if x = 0 then NaN else if 0 < x then PosInfinity else NegInfinity)"
| "mul_with rnd (Finite x) NegInfinity =
     (if x = 0 then NaN else if 0 < x then NegInfinity else PosInfinity)"
| "mul_with rnd PosInfinity (Finite y) =
     (if y = 0 then NaN else if 0 < y then PosInfinity else NegInfinity)"
| "mul_with rnd NegInfinity (Finite y) =
     (if y = 0 then NaN else if 0 < y then NegInfinity else PosInfinity)"
| "mul_with rnd PosInfinity PosInfinity = PosInfinity"
| "mul_with rnd NegInfinity NegInfinity = PosInfinity"
| "mul_with rnd PosInfinity NegInfinity = NegInfinity"
| "mul_with rnd NegInfinity PosInfinity = NegInfinity"

text \<open>The values a property or an argument can hold; an object is its address.\<close>

datatype jsval =
  JUndefined | JNull | JBoolean bool | JNumber jsnum | JString string | JObject nat

text \<open>
  A printed line is kept as the pieces of its template literal: the fixed text and the
  substituted values, so that no number formatting has to be modelled.
\<close>

datatype frag = Text string | Subst jsval

type_synonym line = "frag list"

text \<open>Everything a script can observe from outside is its console.\<close>

record io =
  console :: "line list"

definition console_log :: "line \<Rightarrow> 'a io_scheme \<Rightarrow> 'a io_scheme" where
  "console_log l w = w\<lparr>console := console w @ [l]\<rparr>"

text \<open>\<^verbatim>\<open>new Error(message)\<close>; a call either returns a value or throws.\<close>

datatype error = Error string

datatype 'a outcome = Returns 'a | Throws error


section \<open>Proxy: bank account\<close>

text \<open>
  \<^verbatim>\<open>BankAccount\<close> and \<^verbatim>\<open>RealBankAccount\<close> both hold the single field
  \<^verbatim>\<open>balance\<close>.
\<close>

record BankAccount =
  balance :: jsnum

type_synonym RealBankAccount = BankAccount

text \<open>
  The script without the proxy owns \<^verbatim>\<open>account\<close>; the script with the proxy owns
  \<^verbatim>\<open>realAccount\<close>, which the proxy object refers to.
\<close>

record bank = io +
  account :: BankAccount
  realAccount :: RealBankAccount

definition BankAccount_deposit :: "jsnum \<Rightarrow> bank \<Rightarrow> bank" where
  "BankAccount_deposit amount w =
     (let w1 = w\<lparr>account := (account w)\<lparr>balance := js_add (balance (account w)) amount\<rparr>\<rparr>
      in console_log [Text ''Deposited '', Subst (JNumber amount), Text ''. New balance: '',
                      Subst (JNumber (balance (account w1)))] w1)"


definition RealBankAccount_deposit :: "jsnum \<Rightarrow> bank \<Rightarrow> bank" where
  "RealBankAccount_deposit amount w =
     (let w1 = w\<lparr>realAccount :=
                   (realAccount w)\<lparr>balance := js_add (balance (realAccount w)) amount\<rparr>\<rparr>
      in console_log [Text ''Deposited '', Subst (JNumber amount), Text ''. New balance: '',
                      Subst (JNumber (balance (realAccount w1)))] w1)"

definition RealBankAccount_withdraw :: "jsnum \<Rightarrow> bank \<Rightarrow> bool \<times> bank" where
  "RealBankAccount_withdraw amount w =
     (if js_le amount (balance (realAccount w)) then
        (let w1 = w\<lparr>realAccount :=
                      (realAccount w)\<lparr>balance := js_sub (balance (realAccount w)) amount\<rparr>\<rparr>
         in (True,
             console_log [Text ''Withdrawn '', Subst (JNumber amount), Text ''. New balance: '',
                          Subst (JNumber (balance (realAccount w1)))] w1))
      else (False, w))"

definition validateTransaction :: "jsnum \<Rightarrow> bank \<Rightarrow> bool \<times> bank" where
  "validateTransaction amount w =
     (if js_le amount (Finite 0) then (False, console_log [Text ''Proxy: Invalid amount''] w)
      else (True, w))"

definition BankAccountProxy_deposit :: "jsnum \<Rightarrow> bank \<Rightarrow> bank" where
  "BankAccountProxy_deposit amount w =
     (case validateTransaction amount w of
        (True, w1) \<Rightarrow>
          RealBankAccount_deposit amount
            (console_log [Text ''Proxy: Logging deposit transaction''] w1)
      | (False, w1) \<Rightarrow> w1)"

definition BankAccountProxy_withdraw :: "jsnum \<Rightarrow> bank \<Rightarrow> bank" where
  "BankAccountProxy_withdraw amount w =
     (case validateTransaction amount w of
        (True, w1) \<Rightarrow>
          (let w2 = console_log [Text ''Proxy: Checking withdrawal limit''] w1 in
           if js_gt amount (Finite 1000) then
             console_log [Text ''Proxy: Cannot withdraw more than 1000 at once''] w2
           else
             (case RealBankAccount_withdraw amount w2 of
                (True, w3) \<Rightarrow> w3
              | (False, w3) \<Rightarrow> console_log [Text ''Proxy: Insufficient funds!''] w3))
      | (False, w1) \<Rightarrow> w1)"

text \<open>
  The state right after \<^verbatim>\<open>new BankAccount(b)\<close> and \<^verbatim>\<open>new RealBankAccount(b)\<close>
  for a finite double \<open>b\<close>, with nothing printed yet.
\<close>

definition bank_holding :: "real \<Rightarrow> bank" where
  "bank_holding b = \<lparr>console = [], account = \<lparr>balance = Finite b\<rparr>,
                      realAccount = \<lparr>balance = Finite b\<rparr>\<rparr>"


section \<open>Strategy: paying with cash\<close>





section \<open>Facade: shop\<close>

text \<open>
  The arithmetic of the three calculators is a parameter \<open>rnd\<close>, the rounding of each
  exact result and of each decimal literal: \<open>round64\<close> is the program as it runs,
  \<open>Finite\<close> is exact arithmetic.
\<close>

definition Discount_calculate :: "(real \<Rightarrow> jsnum) \<Rightarrow> jsnum \<Rightarrow> jsnum" where
  "Discount_calculate rnd price = mul_with rnd price (rnd 0.9)"

definition Shipping_calculate :: "(real \<Rightarrow> jsnum) \<Rightarrow> jsnum \<Rightarrow> jsnum" where
  "Shipping_calculate rnd price = mul_with rnd price (rnd 0.1)"

definition Fees_calculate :: "(real \<Rightarrow> jsnum) \<Rightarrow> jsnum \<Rightarrow> jsnum" where
  "Fees_calculate rnd price = mul_with rnd price (rnd 1.05)"

definition ShopFacade_calculate ::
    "(real \<Rightarrow> jsnum) \<Rightarrow> jsnum \<Rightarrow> 'a io_scheme \<Rightarrow> jsnum \<times> 'a io_scheme" where
  "ShopFacade_calculate rnd price w =
     (let price1 = Discount_calculate rnd price;
          w1 = console_log [Text ''Discount: '', Subst (JNumber price1)] w;
          price2 = Fees_calculate rnd price1;
          w2 = console_log [Text ''Fees: '', Subst (JNumber price2)] w1;
          price3 = add_with rnd price2 (Shipping_calculate rnd price2);
          w3 = console_log [Text ''Shipping: '', Subst (JNumber price3)] w2
      in (price3, w3))"


section \<open>Simple factory: animals\<close>

text \<open>
  \<^verbatim>\<open>String.prototype.toLowerCase\<close> belongs to the language, not to the repository.
  Strings are taken as 8-bit character lists on which the letters \<open>A\<close> to \<open>Z\<close> are
  mapped to \<open>a\<close> to \<open>z\<close> and every other character is kept.
\<close>

definition toLowerCase_char :: "char \<Rightarrow> char" where
  "toLowerCase_char c =
     (if CHR ''A'' \<le> c \<and> c \<le> CHR ''Z'' then char_of (of_char c + (32::nat)) else c)"

definition toLowerCase :: "string \<Rightarrow> string" where
  "toLowerCase s = map toLowerCase_char s"

text \<open>The animals have no fields: an instance is its class.\<close>

datatype animal = Animal | Dog | Cat

fun makeSound :: "animal \<Rightarrow> string outcome" where
  "makeSound Animal = Throws (Error ''makeSound() method must be implemented'')"
| "makeSound Dog = Returns ''Woof!''"
| "makeSound Cat = Returns ''Meow!''"

definition createAnimal :: "string \<Rightarrow> animal outcome" where
  "createAnimal type =
     (let t = toLowerCase type in
      if t = ''dog'' then Returns Dog
      else if t = ''cat'' then Returns Cat
      else Throws (Error ''Animal type not supported''))"


section \<open>Factory method: vehicles\<close>

text \<open>
  Neither the vehicles nor the factories have fields: an instance is the class it was
  constructed with, which is what \<^verbatim>\<open>this.constructor\<close> reads. The subclasses declare
  no constructor, so \<^verbatim>\<open>new Car()\<close> runs the constructor of \<^verbatim>\<open>Vehicle\<close> with
  \<^verbatim>\<open>this.constructor === Car\<close>.
\<close>

datatype vehicle = Vehicle | Car | Bike

datatype vehicle_factory = VehicleFactory | CarFactory | BikeFactory

definition new_Vehicle :: "vehicle \<Rightarrow> vehicle outcome" where
  "new_Vehicle this_constructor =
     (if this_constructor = Vehicle then Throws (Error ''Abstract class cannot be instantiated'')
      else Returns this_constructor)"

fun getType :: "vehicle \<Rightarrow> string outcome" where
  "getType Vehicle = Throws (Error ''getType() method must be implemented'')"
| "getType Car = Returns ''Car''"
| "getType Bike = Returns ''Bike''"

definition new_VehicleFactory :: "vehicle_factory \<Rightarrow> vehicle_factory outcome" where
  "new_VehicleFactory this_constructor =
     (if this_constructor = VehicleFactory
      then Throws (Error ''Abstract class cannot be instantiated'')
      else Returns this_constructor)"

fun createVehicle :: "vehicle_factory \<Rightarrow> vehicle outcome" where
  "createVehicle VehicleFactory = Throws (Error ''createVehicle() method must be implemented'')"
| "createVehicle CarFactory = new_Vehicle Car"
| "createVehicle BikeFactory = new_Vehicle Bike"

text \<open>Sequencing of calls that may throw: \<^verbatim>\<open>f().g()\<close>.\<close>

fun and_then :: "'a outcome \<Rightarrow> ('a \<Rightarrow> 'b outcome) \<Rightarrow> 'b outcome" where
  "and_then (Returns x) f = f x"
| "and_then (Throws e) f = Throws e"


section \<open>Observer: subject and observers\<close>

text \<open>
  An observer has no fields. It is the address it was allocated at together with its
  class, which never changes; two observers are the same object (\<^verbatim>\<open>===\<close>) exactly if
  they are equal as such pairs.
\<close>

datatype observer_class = Observer | EmailObserver | SMSObserver | AppObserver

datatype observer = Obj (address: nat) (class_of: observer_class)

fun Observer_update :: "observer \<Rightarrow> jsval \<Rightarrow> 'a io_scheme \<Rightarrow> unit outcome \<times> 'a io_scheme" where
  "Observer_update (Obj a Observer) data w =
     (Throws (Error ''update() method must be implemented''), w)"
| "Observer_update (Obj a EmailObserver) price w =
     (Returns (), console_log [Text ''Email notification: Price updated to '', Subst price] w)"
| "Observer_update (Obj a SMSObserver) price w =
     (Returns (), console_log [Text ''SMS notification: Price updated to '', Subst price] w)"
| "Observer_update (Obj a AppObserver) price w =
     (Returns (), console_log [Text ''App notification: Price updated to '', Subst price] w)"

text \<open>
  \<^verbatim>\<open>Array.prototype.indexOf\<close>: the first index holding the element, or \<open>-1\<close>.
\<close>

fun indexOf :: "'a list \<Rightarrow> 'a \<Rightarrow> int" where
  "indexOf [] x = - 1"
| "indexOf (y # ys) x =
     (if y = x then 0 else (let i = indexOf ys x in if i > - 1 then i + 1 else - 1))"

text \<open>
  \<^verbatim>\<open>Array.prototype.splice(start, deleteCount)\<close> for \<open>start\<close> inside the array: the
  array without \<open>deleteCount\<close> elements from \<open>start\<close> on.
\<close>

definition splice_js :: "'a list \<Rightarrow> nat \<Rightarrow> nat \<Rightarrow> 'a list" where
  "splice_js xs start deleteCount = take start xs @ drop (start + deleteCount) xs"

text \<open>
  \<^verbatim>\<open>Array.prototype.forEach\<close> with a callback that may throw: the elements are visited
  in order, and a throw ends the loop and leaves through the caller.
\<close>

fun forEach :: "'a list \<Rightarrow> ('a \<Rightarrow> 'w \<Rightarrow> unit outcome \<times> 'w) \<Rightarrow> 'w \<Rightarrow> unit outcome \<times> 'w" where
  "forEach [] f w = (Returns (), w)"
| "forEach (x # xs) f w =
     (case f x w of
        (Returns u, w1) \<Rightarrow> forEach xs f w1
      | (Throws e, w1) \<Rightarrow> (Throws e, w1))"

record Subject =
  observers :: "observer list"

definition new_Subject :: Subject where
  "new_Subject = \<lparr>observers = []\<rparr>"

definition Subject_attach :: "observer \<Rightarrow> 'a Subject_scheme \<Rightarrow> 'a Subject_scheme" where
  "Subject_attach observer s = s\<lparr>observers := observers s @ [observer]\<rparr>"

definition Subject_detach :: "observer \<Rightarrow> 'a Subject_scheme \<Rightarrow> 'a Subject_scheme" where
  "Subject_detach observer s =
     (let index = indexOf (observers s) observer in
      if index > - 1 then s\<lparr>observers := splice_js (observers s) (nat index) 1\<rparr> else s)"

definition Subject_notify ::
    "jsval \<Rightarrow> 'a Subject_scheme \<Rightarrow> 'b io_scheme \<Rightarrow> unit outcome \<times> 'b io_scheme" where
  "Subject_notify data s w = forEach (observers s) (\<lambda>observer. Observer_update observer data) w"

record StoreWithObserver = Subject +
  price :: jsval

definition new_StoreWithObserver :: StoreWithObserver where
  "new_StoreWithObserver = \<lparr>observers = [], price = JNumber (Finite 0)\<rparr>"

definition setPrice ::
    "jsval \<Rightarrow> StoreWithObserver \<Rightarrow> 'b io_scheme
      \<Rightarrow> unit outcome \<times> StoreWithObserver \<times> 'b io_scheme" where
  "setPrice p s w =
     (let s1 = s\<lparr>price := p\<rparr>; (r, w1) = Subject_notify p s1 w in (r, s1, w1))"

text \<open>
  The store of the script once its three observers are attached; they are the first
  three objects the script allocates after the store.
\<close>

definition demo_store :: StoreWithObserver where
  "demo_store =
     Subject_attach (Obj 2 AppObserver)
       (Subject_attach (Obj 1 SMSObserver)
         (Subject_attach (Obj 0 EmailObserver) new_StoreWithObserver))"

text \<open>
  What a script goes on to do with a subject: any sequence of the three calls. The
  \<^verbatim>\<open>update\<close> method that a notification finds on each observer is a parameter; for
  the classes of the script it is \<open>Observer_update\<close>. A throw is not caught and ends the
  script.
\<close>

datatype subject_call = Call_attach observer | Call_detach observer | Call_notify jsval

fun run_subject ::
    "(observer \<Rightarrow> jsval \<Rightarrow> 'w \<Rightarrow> unit outcome \<times> 'w) \<Rightarrow> subject_call list
      \<Rightarrow> 'a Subject_scheme \<Rightarrow> 'w \<Rightarrow> unit outcome \<times> 'a Subject_scheme \<times> 'w" where
  "run_subject upd [] s w = (Returns (), s, w)"
| "run_subject upd (Call_attach ob # cs) s w = run_subject upd cs (Subject_attach ob s) w"
| "run_subject upd (Call_detach ob # cs) s w = run_subject upd cs (Subject_detach ob s) w"
| "run_subject upd (Call_notify data # cs) s w =
     (case forEach (observers s) (\<lambda>observer. upd observer data) w of
        (Returns u, w1) \<Rightarrow> run_subject upd cs s w1
      | (Throws e, w1) \<Rightarrow> (Throws e, s, w1))"

text \<open>A subject to which the e-mail observer was attached twice, around the SMS observer.\<close>

definition twice_attached :: Subject where
  "twice_attached =
     Subject_attach (Obj 0 EmailObserver)
       (Subject_attach (Obj 1 SMSObserver)
         (Subject_attach (Obj 0 EmailObserver) new_Subject))"


section \<open>Objects with identity\<close>

text \<open>
  Where a script compares or mutates objects, an object is an address into a heap. The
  heap is the list of the objects allocated so far, so \<^verbatim>\<open>new\<close> always hands out an
  address that was not in use. An object has its class and its own properties; an absent
  property reads as \<^verbatim>\<open>undefined\<close>.
\<close>

record 'c object =
  cls :: 'c
  props :: "string \<Rightarrow> jsval option"

type_synonym 'c heap = "'c object list"

definition alloc :: "'c \<Rightarrow> 'c heap \<Rightarrow> nat \<times> 'c heap" where
  "alloc c h = (length h, h @ [\<lparr>cls = c, props = Map.empty\<rparr>])"

definition get_prop :: "'c heap \<Rightarrow> nat \<Rightarrow> string \<Rightarrow> jsval" where
  "get_prop h r f =
     (if r < length h then (case props (h ! r) f of None \<Rightarrow> JUndefined | Some v \<Rightarrow> v)
      else JUndefined)"

definition set_prop :: "nat \<Rightarrow> string \<Rightarrow> jsval \<Rightarrow> 'c heap \<Rightarrow> 'c heap" where
  "set_prop r f v h =
     (if r < length h then h[r := (h ! r)\<lparr>props := (props (h ! r))(f \<mapsto> v)\<rparr>] else h)"


section \<open>Prototype: shapes\<close>

datatype shape_class = Shape | Rectangle | Circle

definition new_Rectangle :: "jsval \<Rightarrow> jsval \<Rightarrow> shape_class heap \<Rightarrow> nat \<times> shape_class heap" where
  "new_Rectangle width height h =
     (let (this, h0) = alloc Rectangle h;
          h1 = set_prop this ''width'' width h0;
          h2 = set_prop this ''height'' height h1;
          h3 = set_prop this ''type'' (JString ''Rectangle'') h2
      in (this, h3))"

definition new_Circle :: "jsval \<Rightarrow> shape_class heap \<Rightarrow> nat \<times> shape_class heap" where
  "new_Circle radius h =
     (let (this, h0) = alloc Circle h;
          h1 = set_prop this ''radius'' radius h0;
          h2 = set_prop this ''type'' (JString ''Circle'') h1
      in (this, h2))"

definition Rectangle_clone :: "nat \<Rightarrow> shape_class heap \<Rightarrow> nat \<times> shape_class heap" where
  "Rectangle_clone this h = new_Rectangle (get_prop h this ''width'') (get_prop h this ''height'') h"

definition Circle_clone :: "nat \<Rightarrow> shape_class heap \<Rightarrow> nat \<times> shape_class heap" where
  "Circle_clone this h = new_Circle (get_prop h this ''radius'') h"

text \<open>
  \<^verbatim>\<open>shape.clone()\<close>: the method of the receiver's class; the one of \<^verbatim>\<open>Shape\<close>
  throws. A number that is not the address of an allocated object stands for no object,
  and a method call on it is a type error, as on \<^verbatim>\<open>undefined\<close>.
\<close>

definition clone :: "nat \<Rightarrow> shape_class heap \<Rightarrow> nat outcome \<times> shape_class heap" where
  "clone this h =
     (if this < length h then
        (case cls (h ! this) of
           Shape \<Rightarrow> (Throws (Error ''clone() method must be implemented''), h)
         | Rectangle \<Rightarrow> (let (r, h1) = Rectangle_clone this h in (Returns r, h1))
         | Circle \<Rightarrow> (let (r, h1) = Circle_clone this h in (Returns r, h1)))
      else (Throws (Error ''TypeError''), h))"


text \<open>
  The heap of the script before it clones: \<^verbatim>\<open>new Rectangle(10, 20)\<close> and then
  \<^verbatim>\<open>new Circle(15)\<close>.
\<close>

definition demo_shapes :: "shape_class heap" where
  "demo_shapes =
     snd (new_Circle (JNumber (Finite 15))
       (snd (new_Rectangle (JNumber (Finite 10)) (JNumber (Finite 20)) [])))"


section \<open>Singleton: database\<close>

datatype db_class = Database

text \<open>
  The static property \<^verbatim>\<open>Database.instance\<close> is \<^verbatim>\<open>undefined\<close> (\<open>None\<close>) until the
  class stores the address of an object in it.
\<close>

record db_world = io +
  heap :: "db_class heap"
  Database_instance :: "nat option"

text \<open>
  \<^verbatim>\<open>new Database()\<close> allocates \<^verbatim>\<open>this\<close> and runs the constructor, whose early
  \<^verbatim>\<open>return Database.instance\<close> replaces the result of \<^verbatim>\<open>new\<close> and leaves the
  fresh object unused.
\<close>

definition new_Database :: "db_world \<Rightarrow> nat \<times> db_world" where
  "new_Database w =
     (let (this, h0) = alloc Database (heap w); w0 = w\<lparr>heap := h0\<rparr> in
      case Database_instance w0 of
        Some i \<Rightarrow> (i, w0)
      | None \<Rightarrow>
          (let h1 = set_prop this ''connectionString''
                      (JString ''mongodb://localhost:27017/mydb'') (heap w0);
               h2 = set_prop this ''connected'' (JBoolean False) h1
           in (this, w0\<lparr>heap := h2, Database_instance := Some this\<rparr>)))"

definition getInstance :: "db_world \<Rightarrow> nat \<times> db_world" where
  "getInstance w =
     (case Database_instance w of
        None \<Rightarrow> (let (r, w1) = new_Database w in (r, w1\<lparr>Database_instance := Some r\<rparr>))
      | Some i \<Rightarrow> (i, w))"

text \<open>A script is any sequence of the two ways to ask for a database.\<close>

datatype db_call = Call_getInstance | Call_new_Database

fun run_calls :: "db_call list \<Rightarrow> db_world \<Rightarrow> nat list \<times> db_world" where
  "run_calls [] w = ([], w)"
| "run_calls (c # cs) w =
     (let (r, w1) = (case c of Call_getInstance \<Rightarrow> getInstance w
                             | Call_new_Database \<Rightarrow> new_Database w);
          (rs, w2) = run_calls cs w1
      in (r # rs, w2))"

text \<open>The state in which the script starts: nothing allocated, nothing printed.\<close>

definition initial_db_world :: db_world where
  "initial_db_world = \<lparr>console = [], heap = [], Database_instance = None\<rparr>"


section \<open>Facts about JavaScript numbers\<close>






lemma floor_log2_upper:
  assumes "0 < x"
  shows "x < 2 powi (floor_log2 x + 1)"
proof (cases "1 \<le> x")
  case True
  define n where "n = \<lfloor>x\<rfloor>"
  from True have pos: "0 < n" by (simp add: n_def)
  then have k: "0 \<le> bitlen n" by (simp add: bitlen_alt_def)
  from bitlen_bounds [OF pos] have "n + 1 \<le> 2 ^ nat (bitlen n)" by simp
  then have "of_int (n + 1) \<le> (2::real) ^ nat (bitlen n)"
    by (metis of_int_le_iff of_int_numeral of_int_power)
  moreover have "x < of_int (n + 1)" unfolding n_def by linarith
  ultimately have "x < 2 ^ nat (bitlen n)" by linarith
  then show ?thesis
    using True k by (simp add: floor_log2_def n_def power_int_nonneg_exp)
next
  case False
  define c where "c = \<lceil>1 / x\<rceil>"
  from False assms have "1 < 1 / x" by simp
  then have c2: "2 \<le> c" unfolding c_def by linarith
  then have pos: "0 < c - 1" by simp
  then have k: "1 \<le> bitlen (c - 1)" by (simp add: bitlen_alt_def)
  from bitlen_bounds [OF pos] have "2 ^ nat (bitlen (c - 1) - 1) \<le> c - 1" by simp
  then have "(2::real) ^ nat (bitlen (c - 1) - 1) \<le> of_int (c - 1)"
    by (metis of_int_le_iff of_int_numeral of_int_power)
  moreover have "of_int (c - 1) < 1 / x" unfolding c_def by linarith
  ultimately have "2 ^ nat (bitlen (c - 1) - 1) < 1 / x" by linarith
  with assms have "x < 1 / 2 ^ nat (bitlen (c - 1) - 1)"
    by (simp add: field_simps)
  moreover have "2 powi (- bitlen (c - 1) + 1) = (1::real) / 2 ^ nat (bitlen (c - 1) - 1)"
  proof -
    have "- bitlen (c - 1) + 1 = - (bitlen (c - 1) - 1)" by simp
    then show ?thesis
      using k by (simp only: power_int_minus_divide) (simp add: power_int_nonneg_exp)
  qed
  ultimately show ?thesis
    using False by (simp add: floor_log2_def c_def)
qed








section \<open>Proxy: properties\<close>





text \<open>
  C2. An amount above 1000 passes validation and is then refused by the proxy: it prints
  its two lines and returns, and nothing else happens. The wrapped account is not asked:
  its balance is what it was, whether or not it would have covered the amount.
\<close>

theorem proxy_refuses_above_limit:
  "js_gt amount (Finite 1000) \<Longrightarrow>
     BankAccountProxy_withdraw amount w
       = w\<lparr>console := console w @ [[Text ''Proxy: Checking withdrawal limit''],
                                  [Text ''Proxy: Cannot withdraw more than 1000 at once'']]\<rparr>
     \<and> realAccount (BankAccountProxy_withdraw amount w) = realAccount w
     \<and> balance (realAccount (BankAccountProxy_withdraw amount w)) = balance (realAccount w)"
  by (cases amount)
    (auto simp: BankAccountProxy_withdraw_def validateTransaction_def console_log_def js_gt_def)

text \<open>An account holding 5000 would cover 1500; the proxy refuses all the same.\<close>

theorem proxy_refuses_above_limit_witness:
  "js_gt (Finite 1500) (Finite 1000)
   \<and> js_le (Finite 1500) (balance (realAccount (bank_holding 5000)))
   \<and> fst (RealBankAccount_withdraw (Finite 1500) (bank_holding 5000))
   \<and> balance (realAccount (BankAccountProxy_withdraw (Finite 1500) (bank_holding 5000)))
        = Finite 5000
   \<and> console (BankAccountProxy_withdraw (Finite 1500) (bank_holding 5000))
        = [[Text ''Proxy: Checking withdrawal limit''],
           [Text ''Proxy: Cannot withdraw more than 1000 at once'']]"
  using proxy_refuses_above_limit [of "Finite 1500" "bank_holding 5000"]
  by (simp add: bank_holding_def js_gt_def RealBankAccount_withdraw_def)

text \<open>
  C8. An amount that is zero or less fails \<^verbatim>\<open>validateTransaction\<close>, which prints
  \<^verbatim>\<open>Proxy: Invalid amount\<close> and returns false. Both \<^verbatim>\<open>deposit\<close> and
  \<^verbatim>\<open>withdraw\<close> of the proxy then do nothing more: the state afterwards is the state
  before with that one line printed, so no method of the wrapped account has run and its
  balance is unchanged.
\<close>

theorem proxy_rejects_invalid_amount:
  "js_le amount (Finite 0) \<Longrightarrow>
     \<not> fst (validateTransaction amount w)
     \<and> BankAccountProxy_deposit amount w = console_log [Text ''Proxy: Invalid amount''] w
     \<and> BankAccountProxy_withdraw amount w = console_log [Text ''Proxy: Invalid amount''] w
     \<and> realAccount (BankAccountProxy_deposit amount w) = realAccount w
     \<and> realAccount (BankAccountProxy_withdraw amount w) = realAccount w"
  by (simp add: BankAccountProxy_withdraw_def BankAccountProxy_deposit_def
        validateTransaction_def console_log_def)

text \<open>The script's \<^verbatim>\<open>proxyAccount.deposit(-50)\<close>, and a withdrawal of zero.\<close>

theorem proxy_rejects_invalid_amount_witness:
  "js_le (Finite (- 50)) (Finite 0)
   \<and> balance (realAccount (BankAccountProxy_deposit (Finite (- 50)) (bank_holding 150)))
        = Finite 150
   \<and> console (BankAccountProxy_deposit (Finite (- 50)) (bank_holding 150))
        = [[Text ''Proxy: Invalid amount'']]
   \<and> js_le (Finite 0) (Finite 0)
   \<and> balance (realAccount (BankAccountProxy_withdraw (Finite 0) (bank_holding 150)))
        = Finite 150"
  using proxy_rejects_invalid_amount [of "Finite (- 50)" "bank_holding 150"]
    proxy_rejects_invalid_amount [of "Finite 0" "bank_holding 150"]
  by (simp add: bank_holding_def console_log_def)


section \<open>Strategy: properties\<close>





section \<open>Facade: properties\<close>

text \<open>
  C10. \<^verbatim>\<open>ShopFacade.calculate(price)\<close> returns the price times 0.9, times 1.05, times
  1.1: the discount first, then the fee, then the shipping of a tenth of the price with
  the fee added on. In exact arithmetic that is 1.0395 times the price.
\<close>

theorem facade_calculate_total:
  "fst (ShopFacade_calculate Finite p w)
     = mul_with Finite (mul_with Finite (mul_with Finite p (Finite 0.9)) (Finite 1.05))
         (Finite 1.1)
   \<and> fst (ShopFacade_calculate Finite p w) = mul_with Finite p (Finite 1.0395)"
  by (cases p)
    (simp_all add: ShopFacade_calculate_def Discount_calculate_def Fees_calculate_def
       Shipping_calculate_def Let_def)


section \<open>Simple factory: properties\<close>

lemma toLowerCase_char_d:
  "toLowerCase_char c = CHR ''d'' \<longleftrightarrow> c = CHR ''d'' \<or> c = CHR ''D''"
  by (cases c) (auto simp: toLowerCase_char_def char_of_eq_iff)

lemma toLowerCase_char_o:
  "toLowerCase_char c = CHR ''o'' \<longleftrightarrow> c = CHR ''o'' \<or> c = CHR ''O''"
  by (cases c) (auto simp: toLowerCase_char_def char_of_eq_iff)

lemma toLowerCase_char_g:
  "toLowerCase_char c = CHR ''g'' \<longleftrightarrow> c = CHR ''g'' \<or> c = CHR ''G''"
  by (cases c) (auto simp: toLowerCase_char_def char_of_eq_iff)

lemma toLowerCase_char_c:
  "toLowerCase_char c = CHR ''c'' \<longleftrightarrow> c = CHR ''c'' \<or> c = CHR ''C''"
  by (cases c) (auto simp: toLowerCase_char_def char_of_eq_iff)

lemma toLowerCase_char_a:
  "toLowerCase_char c = CHR ''a'' \<longleftrightarrow> c = CHR ''a'' \<or> c = CHR ''A''"
  by (cases c) (auto simp: toLowerCase_char_def char_of_eq_iff)

lemma toLowerCase_char_t:
  "toLowerCase_char c = CHR ''t'' \<longleftrightarrow> c = CHR ''t'' \<or> c = CHR ''T''"
  by (cases c) (auto simp: toLowerCase_char_def char_of_eq_iff)

lemma map_eq_three:
  "map f s = [x, y, z] \<longleftrightarrow> (\<exists>a b c. s = [a, b, c] \<and> f a = x \<and> f b = y \<and> f c = z)"
  by (auto simp: map_eq_Cons_conv)

text \<open>The strings that are \<open>dog\<close>, and those that are \<open>cat\<close>, in some letter case.\<close>

lemma toLowerCase_dog:
  "toLowerCase s = ''dog'' \<longleftrightarrow>
     s \<in> {''dog'', ''doG'', ''dOg'', ''dOG'', ''Dog'', ''DoG'', ''DOg'', ''DOG''}"
  unfolding toLowerCase_def map_eq_three toLowerCase_char_d toLowerCase_char_o
    toLowerCase_char_g
  by auto

lemma toLowerCase_cat:
  "toLowerCase s = ''cat'' \<longleftrightarrow>
     s \<in> {''cat'', ''caT'', ''cAt'', ''cAT'', ''Cat'', ''CaT'', ''CAt'', ''CAT''}"
  unfolding toLowerCase_def map_eq_three toLowerCase_char_c toLowerCase_char_a
    toLowerCase_char_t
  by auto

text \<open>
  C4. \<^verbatim>\<open>createAnimal(type)\<close> throws the error \<^verbatim>\<open>Animal type not supported\<close> for
  every string whose lower-case form is neither \<open>dog\<close> nor \<open>cat\<close>. It returns a
  \<^verbatim>\<open>Dog\<close> exactly for the eight spellings of \<open>dog\<close> in upper and lower case, and a
  \<^verbatim>\<open>Cat\<close> exactly for the eight spellings of \<open>cat\<close>.
\<close>

theorem createAnimal_supported_types:
  "(toLowerCase type \<noteq> ''dog'' \<and> toLowerCase type \<noteq> ''cat'' \<longrightarrow>
      createAnimal type = Throws (Error ''Animal type not supported''))
   \<and> (createAnimal type = Returns Dog \<longleftrightarrow>
        type \<in> {''dog'', ''doG'', ''dOg'', ''dOG'', ''Dog'', ''DoG'', ''DOg'', ''DOG''})
   \<and> (createAnimal type = Returns Cat \<longleftrightarrow>
        type \<in> {''cat'', ''caT'', ''cAt'', ''cAT'', ''Cat'', ''CaT'', ''CAt'', ''CAT''})"
  unfolding toLowerCase_dog [symmetric] toLowerCase_cat [symmetric]
  by (simp add: createAnimal_def Let_def)

text \<open>The script's \<open>bird\<close> is refused; \<open>DoG\<close> and \<open>CAT\<close> are served.\<close>

theorem createAnimal_supported_types_witness:
  "toLowerCase ''bird'' \<noteq> ''dog'' \<and> toLowerCase ''bird'' \<noteq> ''cat''
   \<and> createAnimal ''bird'' = Throws (Error ''Animal type not supported'')
   \<and> createAnimal ''DoG'' = Returns Dog
   \<and> createAnimal ''CAT'' = Returns Cat"
  using createAnimal_supported_types [of "''bird''"] createAnimal_supported_types [of "''DoG''"]
    createAnimal_supported_types [of "''CAT''"]
  by (simp add: toLowerCase_def toLowerCase_char_def char_of_eq_iff)


section \<open>Factory method: properties\<close>

text \<open>
  C7. \<^verbatim>\<open>new Vehicle()\<close> and \<^verbatim>\<open>new VehicleFactory()\<close> throw the error
  \<^verbatim>\<open>Abstract class cannot be instantiated\<close>. Constructing \<^verbatim>\<open>Car\<close>, \<^verbatim>\<open>Bike\<close>,
  \<^verbatim>\<open>CarFactory\<close> or \<^verbatim>\<open>BikeFactory\<close> returns the object, the type of a car is
  \<open>Car\<close> and that of a bike is \<open>Bike\<close>, and so are the types of what the two
  factories create.
\<close>

theorem abstract_classes_cannot_be_instantiated:
  "new_Vehicle Vehicle = Throws (Error ''Abstract class cannot be instantiated'')
   \<and> new_VehicleFactory VehicleFactory = Throws (Error ''Abstract class cannot be instantiated'')
   \<and> new_Vehicle Car = Returns Car
   \<and> new_Vehicle Bike = Returns Bike
   \<and> new_VehicleFactory CarFactory = Returns CarFactory
   \<and> new_VehicleFactory BikeFactory = Returns BikeFactory
   \<and> and_then (new_Vehicle Car) getType = Returns ''Car''
   \<and> and_then (new_Vehicle Bike) getType = Returns ''Bike''
   \<and> and_then (and_then (new_VehicleFactory CarFactory) createVehicle) getType = Returns ''Car''
   \<and> and_then (and_then (new_VehicleFactory BikeFactory) createVehicle) getType
        = Returns ''Bike''"
  by (simp add: new_Vehicle_def new_VehicleFactory_def)


section \<open>Observer: properties\<close>

lemma indexOf_found: "indexOf xs x > - 1 \<longleftrightarrow> x \<in> set xs"
  by (induction xs) (auto simp: Let_def)

text \<open>Removing what \<^verbatim>\<open>indexOf\<close> found removes the first occurrence.\<close>

lemma splice_js_indexOf:
  "x \<in> set xs \<Longrightarrow> splice_js xs (nat (indexOf xs x)) (Suc 0) = remove1 x xs"
proof (induction xs)
  case Nil
  then show ?case by simp
next
  case (Cons y ys)
  show ?case
  proof (cases "y = x")
    case True
    then show ?thesis by (simp add: splice_js_def)
  next
    case False
    with Cons.prems have mem: "x \<in> set ys" by simp
    then have pos: "indexOf ys x > - 1" by (simp add: indexOf_found)
    then have "nat (indexOf ys x + 1) = Suc (nat (indexOf ys x))" by simp
    with False pos Cons.IH [OF mem] show ?thesis
      by (simp add: splice_js_def Let_def)
  qed
qed

lemma observers_detach: "observers (Subject_detach ob s) = remove1 ob (observers s)"
  by (simp add: Subject_detach_def Let_def indexOf_found splice_js_indexOf remove1_idem)

lemma remove1_single:
  "count_list xs x \<le> 1 \<Longrightarrow> remove1 x xs = filter (\<lambda>p. p \<noteq> x) xs"
proof (induction xs)
  case Nil
  then show ?case by simp
next
  case (Cons y ys)
  show ?case
  proof (cases "y = x")
    case True
    with Cons.prems have "count_list ys x = 0" by simp
    then have "x \<notin> set ys" by (simp add: count_list_0_iff)
    then have "filter (\<lambda>p. p \<noteq> x) ys = ys" by (auto simp: filter_id_conv)
    with True show ?thesis by simp
  next
    case False
    with Cons show ?thesis by simp
  qed
qed

text \<open>The loop calls its callback on the elements of the array and on nothing else.\<close>

lemma forEach_cong:
  "(\<And>x. x \<in> set xs \<Longrightarrow> f x = g x) \<Longrightarrow> forEach xs f w = forEach xs g w"
  by (induction xs arbitrary: w) (auto split: prod.splits outcome.splits)

lemma Subject_detach_eq: "Subject_detach ob s = s\<lparr>observers := remove1 ob (observers s)\<rparr>"
proof (cases "ob \<in> set (observers s)")
  case True
  then show ?thesis
    by (simp add: Subject_detach_def Let_def indexOf_found splice_js_indexOf)
next
  case False
  then show ?thesis
    by (simp add: Subject_detach_def Let_def indexOf_found remove1_idem)
qed

lemma count_list_remove1:
  "count_list (remove1 x xs) y = (if x = y then count_list xs y - 1 else count_list xs y)"
  by (induction xs) auto

lemma count_list_two_remains:
  assumes "2 \<le> count_list xs x"
  shows "x \<in> set (remove1 x xs)"
proof -
  have "count_list (remove1 x xs) x = count_list xs x - 1"
    by (simp add: count_list_remove1)
  with assms have "count_list (remove1 x xs) x \<noteq> 0"
    by linarith
  then show ?thesis
    using count_list_0_iff [of "remove1 x xs" x] by simp
qed

text \<open>Where no callback throws, the loop runs through the whole array.\<close>

lemma forEach_returns:
  "(\<And>x v. x \<in> set xs \<Longrightarrow> fst (f x v) = Returns ()) \<Longrightarrow>
     forEach xs f w = (Returns (), fold (\<lambda>x v. snd (f x v)) xs w)"
proof (induction xs arbitrary: w)
  case Nil
  then show ?case by simp
next
  case (Cons x xs)
  from Cons.prems [of x w] have "fst (f x w) = Returns ()" by simp
  then have step: "f x w = (Returns (), snd (f x w))" by (simp add: prod_eq_iff)
  have "forEach (x # xs) f w = forEach xs f (snd (f x w))"
    by (subst forEach.simps, subst step) simp
  with Cons.IH [of "snd (f x w)"] Cons.prems show ?case by simp
qed

lemma Observer_update_returns:
  "class_of p \<noteq> Observer \<Longrightarrow> fst (Observer_update p data w) = Returns ()"
  by (cases p; cases "class_of p") auto

text \<open>
  An observer that is not attached, and is not attached again, is never called: the
  script runs the same whatever its \<^verbatim>\<open>update\<close> would do.
\<close>

lemma run_subject_without:
  "ob \<notin> set (observers s) \<Longrightarrow> Call_attach ob \<notin> set cs \<Longrightarrow>
     run_subject (upd(ob := g)) cs s w = run_subject upd cs s w
     \<and> ob \<notin> set (observers (fst (snd (run_subject upd cs s w))))"
proof (induction cs arbitrary: s w)
  case Nil
  then show ?case by simp
next
  case (Cons c cs)
  show ?case
  proof (cases c)
    case (Call_attach p)
    with Cons.prems have "ob \<notin> set (observers (Subject_attach p s))"
      by (auto simp: Subject_attach_def)
    with Cons.IH [of "Subject_attach p s" w] Cons.prems Call_attach show ?thesis by simp
  next
    case (Call_detach p)
    from Cons.prems have "ob \<notin> set (observers (Subject_detach p s))"
      by (auto simp: observers_detach dest: notin_set_remove1)
    with Cons.IH [of "Subject_detach p s" w] Cons.prems Call_detach show ?thesis by simp
  next
    case (Call_notify d)
    have same: "forEach (observers s) (\<lambda>observer. (upd(ob := g)) observer d) w
        = forEach (observers s) (\<lambda>observer. upd observer d) w"
      using Cons.prems(1) by (intro forEach_cong) auto
    show ?thesis
    proof (cases "forEach (observers s) (\<lambda>observer. upd observer d) w")
      case (Pair res w1)
      show ?thesis
      proof (cases res)
        case (Returns u)
        with Pair same Call_notify Cons.IH [of s w1] Cons.prems show ?thesis by simp
      next
        case (Throws err)
        with Pair same Call_notify Cons.prems show ?thesis by simp
      qed
    qed
  qed
qed

text \<open>
  C3, as the code has it. \<^verbatim>\<open>detach\<close> takes the first occurrence of the observer out
  of the array and changes nothing else; it does nothing for an observer that is not in
  it. Every other observer stays as often as it was there, and \<^verbatim>\<open>notify(data)\<close>
  is the loop over the array that is left, in its order: where no \<^verbatim>\<open>update\<close>
  throws, every observer in it receives \<^verbatim>\<open>update(data)\<close>. An observer that was in
  the array at most once is not in it afterwards. As long as it is not attached again,
  no later call changes that, and whatever calls of \<^verbatim>\<open>attach\<close>, \<^verbatim>\<open>detach\<close> and
  \<^verbatim>\<open>notify\<close> follow, they run the same whatever the \<^verbatim>\<open>update\<close> of the detached
  observer would do: it is not called. An observer that was in the array twice or more
  is still in it after one \<^verbatim>\<open>detach\<close>, once less.
\<close>

theorem detach_stops_notifications:
  "Subject_detach ob s = s\<lparr>observers := remove1 ob (observers s)\<rparr>
   \<and> (observers s = xs @ ob # ys \<and> ob \<notin> set xs \<longrightarrow>
        observers (Subject_detach ob s) = xs @ ys)
   \<and> (ob \<notin> set (observers s) \<longrightarrow> Subject_detach ob s = s)
   \<and> (p \<noteq> ob \<longrightarrow>
        count_list (observers (Subject_detach ob s)) p = count_list (observers s) p)
   \<and> Subject_notify data (Subject_detach ob s) w
        = forEach (remove1 ob (observers s)) (\<lambda>observer. Observer_update observer data) w
   \<and> ((\<forall>q \<in> set (observers s). class_of q \<noteq> Observer) \<longrightarrow>
        Subject_notify data (Subject_detach ob s) w
          = (Returns (),
             fold (\<lambda>q v. snd (Observer_update q data v)) (remove1 ob (observers s)) w))
   \<and> (count_list (observers s) ob \<le> 1 \<longrightarrow>
        ob \<notin> set (observers (Subject_detach ob s))
        \<and> observers (Subject_detach ob s) = filter (\<lambda>q. q \<noteq> ob) (observers s)
        \<and> Subject_notify data (Subject_detach ob s) w
            = forEach (filter (\<lambda>q. q \<noteq> ob) (observers s))
                (\<lambda>observer. Observer_update observer data) w
        \<and> (\<forall>f h. forEach (observers (Subject_detach ob s)) (f(ob := h)) w
                 = forEach (observers (Subject_detach ob s)) f w))
   \<and> (count_list (observers s) ob \<le> 1 \<and> Call_attach ob \<notin> set cs \<longrightarrow>
        run_subject (upd(ob := g)) cs (Subject_detach ob s) w
          = run_subject upd cs (Subject_detach ob s) w
        \<and> ob \<notin> set (observers (fst (snd (run_subject upd cs (Subject_detach ob s) w)))))
   \<and> (2 \<le> count_list (observers s) ob \<longrightarrow>
        ob \<in> set (observers (Subject_detach ob s))
        \<and> count_list (observers (Subject_detach ob s)) ob = count_list (observers s) ob - 1)"
proof -
  have first: "observers (Subject_detach ob s) = xs @ ys"
    if "observers s = xs @ ob # ys" "ob \<notin> set xs"
    using that by (simp add: observers_detach remove1_append)
  have absent: "Subject_detach ob s = s" if "ob \<notin> set (observers s)"
    using that by (simp add: Subject_detach_eq remove1_idem)
  have others: "count_list (observers (Subject_detach ob s)) p = count_list (observers s) p"
    if "p \<noteq> ob"
    using that by (simp add: observers_detach count_list_remove1)
  have notify: "Subject_notify data (Subject_detach ob s) w
      = forEach (remove1 ob (observers s)) (\<lambda>observer. Observer_update observer data) w"
    by (simp add: Subject_notify_def observers_detach)
  have all: "Subject_notify data (Subject_detach ob s) w
      = (Returns (), fold (\<lambda>q v. snd (Observer_update q data v)) (remove1 ob (observers s)) w)"
    if "\<forall>q \<in> set (observers s). class_of q \<noteq> Observer"
    unfolding notify
  proof (rule forEach_returns)
    fix x v
    assume "x \<in> set (remove1 ob (observers s))"
    then have "x \<in> set (observers s)" using set_remove1_subset by fast
    with that show "fst (Observer_update x data v) = Returns ()"
      by (simp add: Observer_update_returns)
  qed
  have once: "ob \<notin> set (observers (Subject_detach ob s))
      \<and> observers (Subject_detach ob s) = filter (\<lambda>q. q \<noteq> ob) (observers s)
      \<and> Subject_notify data (Subject_detach ob s) w
          = forEach (filter (\<lambda>q. q \<noteq> ob) (observers s))
              (\<lambda>observer. Observer_update observer data) w
      \<and> (\<forall>f h. forEach (observers (Subject_detach ob s)) (f(ob := h)) w
               = forEach (observers (Subject_detach ob s)) f w)"
    if "count_list (observers s) ob \<le> 1"
  proof -
    have obs: "observers (Subject_detach ob s) = filter (\<lambda>q. q \<noteq> ob) (observers s)"
      using that by (simp add: observers_detach remove1_single)
    then have gone: "ob \<notin> set (observers (Subject_detach ob s))"
      by simp
    have "forEach (observers (Subject_detach ob s)) (f(ob := h)) w
            = forEach (observers (Subject_detach ob s)) f w" for f h
      using gone by (intro forEach_cong) auto
    with obs gone show ?thesis
      by (simp add: Subject_notify_def)
  qed
  have later: "run_subject (upd(ob := g)) cs (Subject_detach ob s) w
        = run_subject upd cs (Subject_detach ob s) w
      \<and> ob \<notin> set (observers (fst (snd (run_subject upd cs (Subject_detach ob s) w))))"
    if "count_list (observers s) ob \<le> 1" "Call_attach ob \<notin> set cs"
    using once [OF that(1)] that(2) by (intro run_subject_without) simp_all
  have twice: "ob \<in> set (observers (Subject_detach ob s))
      \<and> count_list (observers (Subject_detach ob s)) ob = count_list (observers s) ob - 1"
    if "2 \<le> count_list (observers s) ob"
    using that by (simp add: observers_detach count_list_remove1 count_list_two_remains)
  from Subject_detach_eq [of ob s] first absent others notify all once later twice
  show ?thesis by blast
qed

text \<open>
  The script: the e-mail, SMS and app observers are attached and the SMS observer is
  detached. Then another e-mail observer is attached, the price is set to 200, the first
  e-mail observer is detached and the price is set to 300; it makes no difference that
  the \<^verbatim>\<open>update\<close> of the SMS observer is replaced by one that throws. And on the
  subject that has the e-mail observer twice, detaching it takes the first of the two.
\<close>

theorem detach_stops_notifications_witness:
  "count_list (observers demo_store) (Obj 1 SMSObserver) \<le> 1
   \<and> list_all (\<lambda>q. class_of q \<noteq> Observer) (observers demo_store)
   \<and> Call_attach (Obj 1 SMSObserver)
        \<notin> set [Call_attach (Obj 3 EmailObserver), Call_notify (JNumber (Finite 200)),
                Call_detach (Obj 0 EmailObserver), Call_notify (JNumber (Finite 300))]
   \<and> Obj 1 SMSObserver \<notin> set (observers (Subject_detach (Obj 1 SMSObserver) demo_store))
   \<and> Subject_notify (JNumber (Finite 200)) (Subject_detach (Obj 1 SMSObserver) demo_store)
        \<lparr>console = []\<rparr>
      = (Returns (),
         \<lparr>console = [[Text ''Email notification: Price updated to '',
                       Subst (JNumber (Finite 200))],
                      [Text ''App notification: Price updated to '',
                       Subst (JNumber (Finite 200))]]\<rparr>)
   \<and> run_subject (Observer_update (Obj 1 SMSObserver := \<lambda>d v. (Throws (Error ''called''), v)))
        [Call_attach (Obj 3 EmailObserver), Call_notify (JNumber (Finite 200)),
         Call_detach (Obj 0 EmailObserver), Call_notify (JNumber (Finite 300))]
        (Subject_detach (Obj 1 SMSObserver) demo_store) \<lparr>console = []\<rparr>
      = run_subject Observer_update
        [Call_attach (Obj 3 EmailObserver), Call_notify (JNumber (Finite 200)),
         Call_detach (Obj 0 EmailObserver), Call_notify (JNumber (Finite 300))]
        (Subject_detach (Obj 1 SMSObserver) demo_store) \<lparr>console = []\<rparr>
   \<and> observers twice_attached
        = [] @ Obj 0 EmailObserver # [Obj 1 SMSObserver, Obj 0 EmailObserver]
   \<and> Obj 0 EmailObserver \<notin> set []
   \<and> 2 \<le> count_list (observers twice_attached) (Obj 0 EmailObserver)
   \<and> observers (Subject_detach (Obj 0 EmailObserver) twice_attached)
        = [Obj 1 SMSObserver, Obj 0 EmailObserver]
   \<and> Obj 0 EmailObserver \<in> set (observers (Subject_detach (Obj 0 EmailObserver) twice_attached))"
proof -
  let ?sms = "Obj 1 SMSObserver" and ?email = "Obj 0 EmailObserver"
  let ?cs = "[Call_attach (Obj 3 EmailObserver), Call_notify (JNumber (Finite 200)),
    Call_detach (Obj 0 EmailObserver), Call_notify (JNumber (Finite 300))]"
  have store: "observers demo_store = [?email, ?sms, Obj 2 AppObserver]"
    by (simp add: demo_store_def Subject_attach_def new_StoreWithObserver_def)
  have once: "count_list (observers demo_store) ?sms \<le> 1"
    and concrete: "\<forall>q \<in> set (observers demo_store). class_of q \<noteq> Observer"
    and listed: "list_all (\<lambda>q. class_of q \<noteq> Observer) (observers demo_store)"
    and left: "remove1 ?sms (observers demo_store) = [?email, Obj 2 AppObserver]"
    by (simp_all add: store)
  have never: "Call_attach ?sms \<notin> set ?cs"
    by simp
  have dup: "observers twice_attached = [] @ ?email # [?sms, ?email]"
    and fresh: "?email \<notin> set []"
    and two: "2 \<le> count_list (observers twice_attached) ?email"
    by (simp_all add: twice_attached_def Subject_attach_def new_Subject_def)
  note store_fact = detach_stops_notifications [of ?sms demo_store _ _ _ "JNumber (Finite 200)"
      "\<lparr>console = []\<rparr>" ?cs Observer_update "\<lambda>d v. (Throws (Error ''called''), v)"]
  from store_fact once have gone: "?sms \<notin> set (observers (Subject_detach ?sms demo_store))"
    by blast
  from store_fact concrete
  have "Subject_notify (JNumber (Finite 200)) (Subject_detach ?sms demo_store) \<lparr>console = []\<rparr>
      = (Returns (), fold (\<lambda>q v. snd (Observer_update q (JNumber (Finite 200)) v))
          (remove1 ?sms (observers demo_store)) \<lparr>console = []\<rparr>)"
    by blast
  then have printed: "Subject_notify (JNumber (Finite 200)) (Subject_detach ?sms demo_store)
        \<lparr>console = []\<rparr>
      = (Returns (),
         \<lparr>console = [[Text ''Email notification: Price updated to '',
                       Subst (JNumber (Finite 200))],
                      [Text ''App notification: Price updated to '',
                       Subst (JNumber (Finite 200))]]\<rparr>)"
    unfolding left by (simp add: console_log_def)
  from store_fact once never
  have same: "run_subject (Observer_update (?sms := \<lambda>d v. (Throws (Error ''called''), v))) ?cs
        (Subject_detach ?sms demo_store) \<lparr>console = []\<rparr>
      = run_subject Observer_update ?cs (Subject_detach ?sms demo_store) \<lparr>console = []\<rparr>"
    by blast
  note dup_fact = detach_stops_notifications [of ?email twice_attached "[]" "[?sms, ?email]"]
  from dup_fact dup fresh
  have "observers (Subject_detach ?email twice_attached) = [] @ [?sms, ?email]"
    by blast
  then have first: "observers (Subject_detach ?email twice_attached) = [?sms, ?email]"
    by simp
  from dup_fact two
  have still: "?email \<in> set (observers (Subject_detach ?email twice_attached))"
    by blast
  from once listed never gone printed same dup fresh two first still
  show ?thesis by blast
qed

text \<open>
  C3 as stated fails: an observer attached twice and detached once is still in the
  array, and the next \<^verbatim>\<open>notify\<close> calls its \<^verbatim>\<open>update\<close>, which prints its line.
\<close>

theorem detach_after_double_attach_counterexample:
  "Obj 0 EmailObserver
     \<in> set (observers (Subject_detach (Obj 0 EmailObserver)
              (Subject_attach (Obj 0 EmailObserver)
                (Subject_attach (Obj 0 EmailObserver) new_Subject))))
   \<and> Subject_notify (JNumber (Finite 200))
        (Subject_detach (Obj 0 EmailObserver)
          (Subject_attach (Obj 0 EmailObserver)
            (Subject_attach (Obj 0 EmailObserver) new_Subject)))
        \<lparr>console = []\<rparr>
      = (Returns (), \<lparr>console = [[Text ''Email notification: Price updated to '',
                                    Subst (JNumber (Finite 200))]]\<rparr>)"
  by (simp add: Subject_notify_def Subject_detach_def Subject_attach_def new_Subject_def
        splice_js_def console_log_def)


section \<open>Prototype: properties\<close>

text \<open>
  C1. Cloning a rectangle that \<^verbatim>\<open>new Rectangle(width, height)\<close> has made returns an
  address that was not allocated before, so the clone is another object than the
  original. It has the class, the width, the height and the type of the original, and
  the original is as it was. Assigning any value to any property of the clone afterwards
  changes that property of the clone and leaves the original, property by property,
  untouched. The same holds for a circle and its radius. For a rectangle or a circle in
  any state, \<^verbatim>\<open>clone\<close> copies the width and height, or the radius, it has at that
  moment, gives the clone the type the constructor sets, and changes no object that
  existed, nor does any later assignment to a property of the clone.
\<close>

theorem clone_is_independent_copy:
  "(let (r, h1) = new_Rectangle width height h;
        (res, h2) = clone r h1;
        c = length h1
    in res = Returns c \<and> r < length h1 \<and> c \<noteq> r \<and> length h2 = Suc c
       \<and> cls (h2 ! c) = cls (h1 ! r)
       \<and> get_prop h2 c ''width'' = get_prop h1 r ''width''
       \<and> get_prop h2 c ''height'' = get_prop h1 r ''height''
       \<and> get_prop h2 c ''type'' = get_prop h1 r ''type''
       \<and> get_prop h1 r ''width'' = width
       \<and> get_prop h1 r ''height'' = height
       \<and> get_prop h1 r ''type'' = JString ''Rectangle''
       \<and> h2 ! r = h1 ! r
       \<and> (\<forall>f v g. set_prop c f v h2 ! r = h1 ! r
                 \<and> get_prop (set_prop c f v h2) r g = get_prop h1 r g
                 \<and> get_prop (set_prop c f v h2) c f = v))
   \<and> (let (r, h1) = new_Circle radius h;
           (res, h2) = clone r h1;
           c = length h1
       in res = Returns c \<and> r < length h1 \<and> c \<noteq> r \<and> length h2 = Suc c
          \<and> cls (h2 ! c) = cls (h1 ! r)
          \<and> get_prop h2 c ''radius'' = get_prop h1 r ''radius''
          \<and> get_prop h2 c ''type'' = get_prop h1 r ''type''
          \<and> get_prop h1 r ''radius'' = radius
          \<and> get_prop h1 r ''type'' = JString ''Circle''
          \<and> h2 ! r = h1 ! r
          \<and> (\<forall>f v g. set_prop c f v h2 ! r = h1 ! r
                    \<and> get_prop (set_prop c f v h2) r g = get_prop h1 r g
                    \<and> get_prop (set_prop c f v h2) c f = v))
   \<and> (this < length h \<and> cls (h ! this) = Rectangle \<longrightarrow>
        (let (res, h2) = clone this h; c = length h
         in res = Returns c \<and> c \<noteq> this \<and> length h2 = Suc c
            \<and> cls (h2 ! c) = Rectangle
            \<and> get_prop h2 c ''width'' = get_prop h this ''width''
            \<and> get_prop h2 c ''height'' = get_prop h this ''height''
            \<and> get_prop h2 c ''type'' = JString ''Rectangle''
            \<and> take c h2 = h
            \<and> (\<forall>f v. take c (set_prop c f v h2) = h)))
   \<and> (this < length h \<and> cls (h ! this) = Circle \<longrightarrow>
        (let (res, h2) = clone this h; c = length h
         in res = Returns c \<and> c \<noteq> this \<and> length h2 = Suc c
            \<and> cls (h2 ! c) = Circle
            \<and> get_prop h2 c ''radius'' = get_prop h this ''radius''
            \<and> get_prop h2 c ''type'' = JString ''Circle''
            \<and> take c h2 = h
            \<and> (\<forall>f v. take c (set_prop c f v h2) = h)))"
  by (simp add: new_Rectangle_def new_Circle_def clone_def Rectangle_clone_def
        Circle_clone_def alloc_def set_prop_def get_prop_def Let_def nth_append)

text \<open>
  The script's shapes: the rectangle of 10 by 20 at address 0 and the circle of radius 15
  at address 1. Each clone is the object at address 2, and setting the width of the
  rectangle's clone to 30 leaves the width of the rectangle at 10.
\<close>

theorem clone_is_independent_copy_witness:
  "0 < length demo_shapes \<and> cls (demo_shapes ! 0) = Rectangle
   \<and> fst (clone 0 demo_shapes) = Returns 2
   \<and> get_prop (snd (clone 0 demo_shapes)) 2 ''width'' = JNumber (Finite 10)
   \<and> get_prop (set_prop 2 ''width'' (JNumber (Finite 30)) (snd (clone 0 demo_shapes))) 0 ''width''
        = JNumber (Finite 10)
   \<and> 1 < length demo_shapes \<and> cls (demo_shapes ! 1) = Circle
   \<and> fst (clone 1 demo_shapes) = Returns 2
   \<and> get_prop (snd (clone 1 demo_shapes)) 2 ''radius'' = JNumber (Finite 15)"
proof -
  have shapes: "0 < length demo_shapes \<and> cls (demo_shapes ! 0) = Rectangle
      \<and> 1 < length demo_shapes \<and> cls (demo_shapes ! 1) = Circle
      \<and> length demo_shapes = 2
      \<and> get_prop demo_shapes 0 ''width'' = JNumber (Finite 10)
      \<and> get_prop demo_shapes 1 ''radius'' = JNumber (Finite 15)"
    by (simp add: demo_shapes_def new_Rectangle_def new_Circle_def alloc_def set_prop_def
          get_prop_def Let_def nth_append)
  have kept: "get_prop (set_prop 2 ''width'' (JNumber (Finite 30)) (snd (clone 0 demo_shapes)))
      0 ''width'' = get_prop (take 2 (set_prop 2 ''width'' (JNumber (Finite 30))
        (snd (clone 0 demo_shapes)))) 0 ''width''"
    by (simp add: get_prop_def set_prop_def)
  from shapes clone_is_independent_copy [of _ _ demo_shapes _ 0]
    clone_is_independent_copy [of _ _ demo_shapes _ 1]
  show ?thesis
    unfolding kept by (simp add: split_def Let_def)
qed


section \<open>Singleton: properties\<close>

lemma new_Database_existing:
  "Database_instance w = Some i \<Longrightarrow>
     fst (new_Database w) = i \<and> Database_instance (snd (new_Database w)) = Some i"
  by (simp add: new_Database_def alloc_def)

lemma new_Database_first:
  "Database_instance w = None \<Longrightarrow>
     fst (new_Database w) = length (heap w)
     \<and> Database_instance (snd (new_Database w)) = Some (length (heap w))"
  by (simp add: new_Database_def alloc_def Let_def)

lemma getInstance_existing:
  "Database_instance w = Some i \<Longrightarrow>
     fst (getInstance w) = i \<and> Database_instance (snd (getInstance w)) = Some i"
  by (simp add: getInstance_def)

lemma getInstance_first:
  "Database_instance w = None \<Longrightarrow>
     fst (getInstance w) = length (heap w)
     \<and> Database_instance (snd (getInstance w)) = Some (length (heap w))"
  by (simp add: getInstance_def split_def new_Database_first)

text \<open>Once the instance exists, every call returns it and leaves it in place.\<close>

lemma run_calls_existing:
  "Database_instance w = Some i \<Longrightarrow>
     set (fst (run_calls cs w)) \<subseteq> {i} \<and> Database_instance (snd (run_calls cs w)) = Some i"
proof (induction cs arbitrary: w)
  case Nil
  then show ?case by simp
next
  case (Cons c cs)
  show ?case
  proof (cases c)
    case Call_getInstance
    with Cons.prems Cons.IH [of "snd (getInstance w)"] show ?thesis
      by (simp add: split_def Let_def getInstance_existing)
  next
    case Call_new_Database
    with Cons.prems Cons.IH [of "snd (new_Database w)"] show ?thesis
      by (simp add: split_def Let_def new_Database_existing)
  qed
qed

text \<open>The first call makes the instance, at the first free address.\<close>

lemma run_calls_first:
  assumes none: "Database_instance w = None"
  shows "set (fst (run_calls cs w)) \<subseteq> {length (heap w)}"
proof (cases cs)
  case Nil
  then show ?thesis by simp
next
  case (Cons c cs')
  show ?thesis
  proof (cases c)
    case Call_getInstance
    with Cons none run_calls_existing [of "snd (getInstance w)" "length (heap w)" cs']
    show ?thesis
      by (simp add: split_def Let_def getInstance_first)
  next
    case Call_new_Database
    with Cons none run_calls_existing [of "snd (new_Database w)" "length (heap w)" cs']
    show ?thesis
      by (simp add: split_def Let_def new_Database_first)
  qed
qed

lemma run_calls_one_instance: "\<exists>i. set (fst (run_calls cs w)) \<subseteq> {i}"
proof (cases "Database_instance w")
  case None
  then show ?thesis using run_calls_first by blast
next
  case (Some i)
  then show ?thesis using run_calls_existing by blast
qed

text \<open>
  C9. Two calls of \<^verbatim>\<open>Database.getInstance()\<close> in a row return the same object, and
  so does any mix of \<^verbatim>\<open>getInstance()\<close> and \<^verbatim>\<open>new Database()\<close>. Once an instance
  exists, \<^verbatim>\<open>new Database()\<close> returns it rather than the object it has just allocated.
  In any sequence of such calls, from any state, all the objects returned are one and
  the same; from the initial state it is the object at address 0.
\<close>

theorem database_single_instance:
  "fst (getInstance (snd (getInstance w))) = fst (getInstance w)
   \<and> fst (new_Database (snd (getInstance w))) = fst (getInstance w)
   \<and> fst (new_Database (snd (new_Database w))) = fst (new_Database w)
   \<and> fst (getInstance (snd (new_Database w))) = fst (new_Database w)
   \<and> (Database_instance w = Some i \<longrightarrow> fst (new_Database w) = i \<and> fst (getInstance w) = i)
   \<and> (\<forall>a \<in> set (fst (run_calls cs w)). \<forall>b \<in> set (fst (run_calls cs w)). a = b)
   \<and> set (fst (run_calls cs initial_db_world)) \<subseteq> {0}"
proof -
  have g: "Database_instance (snd (getInstance w)) = Some (fst (getInstance w))"
    by (cases "Database_instance w") (simp_all add: getInstance_first getInstance_existing)
  have n: "Database_instance (snd (new_Database w)) = Some (fst (new_Database w))"
    by (cases "Database_instance w") (simp_all add: new_Database_first new_Database_existing)
  obtain k where "set (fst (run_calls cs w)) \<subseteq> {k}"
    using run_calls_one_instance by blast
  then have same: "\<forall>a \<in> set (fst (run_calls cs w)). \<forall>b \<in> set (fst (run_calls cs w)). a = b"
    by blast
  have init: "set (fst (run_calls cs initial_db_world)) \<subseteq> {0}"
    using run_calls_first [of initial_db_world cs] by (simp add: initial_db_world_def)
  from g n same init show ?thesis
    by (simp add: getInstance_existing new_Database_existing)
qed

text \<open>
  The script: after the first \<^verbatim>\<open>getInstance()\<close> has made the object at address 0,
  a second \<^verbatim>\<open>getInstance()\<close> and a \<^verbatim>\<open>new Database()\<close> both return it.
\<close>

theorem database_single_instance_witness:
  "Database_instance (snd (getInstance initial_db_world)) = Some 0
   \<and> fst (new_Database (snd (getInstance initial_db_world))) = 0
   \<and> fst (getInstance (snd (getInstance initial_db_world))) = 0
   \<and> fst (run_calls [Call_getInstance, Call_new_Database] (snd (getInstance initial_db_world)))
       = [0, 0]"
proof -
  have made: "Database_instance (snd (getInstance initial_db_world)) = Some 0"
    by (simp add: getInstance_def new_Database_def alloc_def initial_db_world_def Let_def)
  have calls: "fst (run_calls [Call_getInstance, Call_new_Database]
      (snd (getInstance initial_db_world))) = [0, 0]"
    by (simp add: getInstance_def new_Database_def alloc_def initial_db_world_def Let_def)
  from made database_single_instance [of "snd (getInstance initial_db_world)" 0
      "[Call_getInstance, Call_new_Database]"]
  have "fst (new_Database (snd (getInstance initial_db_world))) = 0
      \<and> fst (getInstance (snd (getInstance initial_db_world))) = 0"
    by blast
  with made calls show ?thesis by simp
qed

end
